theory Spec2Isabelle
  imports Main "HOL-Library.Word" "HOL-Library.AList"
begin

section \<open>The Avro-JSON decoder of package protoavro (decode.go)\<close>

subsection \<open>Generic values\<close>

text \<open>
  The decoder's input is a Go \<^verbatim>\<open>interface{}\<close>. \<open>gval\<close> lists the dynamic types the
  code tells apart: \<^verbatim>\<open>nil\<close>, the scalars, \<^verbatim>\<open>[]interface{}\<close> and
  \<^verbatim>\<open>map[string]interface{}\<close>; \<open>GOther t\<close> is a value of any other dynamic type, whose
  \<^verbatim>\<open>%T\<close> rendering is \<open>t\<close>. Floats are carried as their bit patterns: the decoder
  never computes with them. A Go map has unique keys and an unspecified iteration
  order: \<open>GMap\<close> holds its entries as an association list in the order in which
  \<^verbatim>\<open>range\<close> visits them, \<^verbatim>\<open>d[k]\<close> is \<open>map_of d k\<close> and \<^verbatim>\<open>len(d)\<close> is \<open>length d\<close>.
\<close>

datatype gval =
    GNil
  | GBool bool
  | GInt32 "32 word"
  | GInt64 "64 word"
  | GFloat32 "32 word"
  | GFloat64 "64 word"
  | GString string
  | GBytes "8 word list"
  | GArray "gval list"
  | GMap "(string \<times> gval) list"
  | GOther string

text \<open>The \<^verbatim>\<open>%T\<close> verb of package fmt: the dynamic type of the value.\<close>

fun goTypeName :: "gval \<Rightarrow> string" where
  "goTypeName GNil = ''<nil>''"
| "goTypeName (GBool _) = ''bool''"
| "goTypeName (GInt32 _) = ''int32''"
| "goTypeName (GInt64 _) = ''int64''"
| "goTypeName (GFloat32 _) = ''float32''"
| "goTypeName (GFloat64 _) = ''float64''"
| "goTypeName (GString _) = ''string''"
| "goTypeName (GBytes _) = ''[]uint8''"
| "goTypeName (GArray _) = ''[]interface {}''"
| "goTypeName (GMap _) = ''map[string]interface {}''"
| "goTypeName (GOther t) = t"

subsection \<open>Descriptors (package protoreflect)\<close>

text \<open>
  \<^verbatim>\<open>protoreflect.Kind\<close> is an \<^verbatim>\<open>int8\<close> with eighteen named values; \<open>UnknownKind n\<close> is
  any other value, which only the last line of \<^verbatim>\<open>decodeFieldKind\<close> sees.
\<close>

datatype kind =
    BoolKind | EnumKind | Int32Kind | Sint32Kind | Uint32Kind
  | Int64Kind | Sint64Kind | Uint64Kind | Sfixed32Kind | Fixed32Kind
  | FloatKind | Sfixed64Kind | Fixed64Kind | DoubleKind
  | StringKind | BytesKind | MessageKind | GroupKind
  | UnknownKind nat

fun natString :: "nat \<Rightarrow> string" where
  "natString n =
     (if n < 10 then [char_of (48 + n)]
      else natString (n div 10) @ [char_of (48 + n mod 10)])"

declare natString.simps [simp del]

text \<open>\<^verbatim>\<open>Kind.String()\<close>, which the \<^verbatim>\<open>%s\<close> verb calls.\<close>

fun kindString :: "kind \<Rightarrow> string" where
  "kindString BoolKind = ''bool''"
| "kindString EnumKind = ''enum''"
| "kindString Int32Kind = ''int32''"
| "kindString Sint32Kind = ''sint32''"
| "kindString Uint32Kind = ''uint32''"
| "kindString Int64Kind = ''int64''"
| "kindString Sint64Kind = ''sint64''"
| "kindString Uint64Kind = ''uint64''"
| "kindString Sfixed32Kind = ''sfixed32''"
| "kindString Fixed32Kind = ''fixed32''"
| "kindString FloatKind = ''float''"
| "kindString Sfixed64Kind = ''sfixed64''"
| "kindString Fixed64Kind = ''fixed64''"
| "kindString DoubleKind = ''double''"
| "kindString StringKind = ''string''"
| "kindString BytesKind = ''bytes''"
| "kindString MessageKind = ''message''"
| "kindString GroupKind = ''group''"
| "kindString (UnknownKind n) = ''<unknown:'' @ natString n @ ''>''"

text \<open>
  An enum descriptor: its full name and its value table (\<^verbatim>\<open>Values().ByName\<close> is
  \<open>map_of\<close> on it; an \<^verbatim>\<open>EnumNumber\<close> is an \<^verbatim>\<open>int32\<close>).
\<close>

record edesc =
  ed_fullName :: string
  ed_values :: "(string \<times> 32 word) list"

text \<open>
  A field descriptor, with the accessors the decoder calls: \<^verbatim>\<open>Name\<close>, \<^verbatim>\<open>JSONName\<close>,
  \<^verbatim>\<open>TextName\<close>, \<^verbatim>\<open>Number\<close> (the key of the field's slot in a message), \<^verbatim>\<open>Kind\<close>,
  \<^verbatim>\<open>IsMap\<close>, \<^verbatim>\<open>IsList\<close>, \<^verbatim>\<open>Enum\<close> (read for enum fields only) and the full name of
  \<^verbatim>\<open>Message\<close> (read for message and group fields only). Message types may refer to
  each other in cycles, so a field names its message type and the schema resolves it.
\<close>

record fdesc =
  fd_name :: string
  fd_jsonName :: string
  fd_textName :: string
  fd_number :: nat
  fd_kind :: kind
  fd_isMap :: bool
  fd_isList :: bool
  fd_enum :: edesc
  fd_message :: string

record mdesc =
  md_fullName :: string
  md_fields :: "fdesc list"

text \<open>The schema: the fields of the message type of each full name.\<close>

type_synonym schema = "string \<Rightarrow> fdesc list"

subsection \<open>Destination messages (package protoreflect)\<close>

text \<open>
  A \<^verbatim>\<open>protoreflect.Value\<close> and a \<^verbatim>\<open>protoreflect.Message\<close>. A message is the full name
  of its type and its populated field slots, keyed by field number. \<open>VInvalid\<close> is the
  zero \<^verbatim>\<open>protoreflect.Value{}\<close>.
\<close>

datatype pval =
    VInvalid
  | VBool bool
  | VInt32 "32 word"
  | VInt64 "64 word"
  | VUint32 "32 word"
  | VUint64 "64 word"
  | VFloat32 "32 word"
  | VFloat64 "64 word"
  | VString string
  | VBytes "8 word list"
  | VEnum "32 word"
  | VMessage pmsg
  | VList "pval list"
  | VMap "(pval \<times> pval) list"
and pmsg = PMsg string "(nat \<times> pval) list"

fun msgName :: "pmsg \<Rightarrow> string" where
  "msgName (PMsg n fs) = n"

fun msgFields :: "pmsg \<Rightarrow> (nat \<times> pval) list" where
  "msgFields (PMsg n fs) = fs"

text \<open>\<^verbatim>\<open>msg.Descriptor()\<close>.\<close>

definition Descriptor :: "schema \<Rightarrow> pmsg \<Rightarrow> mdesc" where
  "Descriptor sch msg = \<lparr>md_fullName = msgName msg, md_fields = sch (msgName msg)\<rparr>"

text \<open>\<^verbatim>\<open>msg.Set(f, v)\<close>: the slot of field \<open>f\<close> now holds \<open>v\<close>; no other slot changes.\<close>

fun msgSet :: "pmsg \<Rightarrow> fdesc \<Rightarrow> pval \<Rightarrow> pmsg" where
  "msgSet (PMsg n fs) f v = PMsg n (AList.update (fd_number f) v fs)"

text \<open>
  \<^verbatim>\<open>list.NewElement()\<close>: a new value for an element of the list field \<open>f\<close>. For a
  message it is a new, empty message; for an enum the first value of the enum; for any
  other scalar the zero value.
\<close>

definition NewElement :: "fdesc \<Rightarrow> pval" where
  "NewElement f =
     (case fd_kind f of
        BoolKind \<Rightarrow> VBool False
      | EnumKind \<Rightarrow> VEnum (case ed_values (fd_enum f) of [] \<Rightarrow> 0 | (n, v) # _ \<Rightarrow> v)
      | Int32Kind \<Rightarrow> VInt32 0 | Sint32Kind \<Rightarrow> VInt32 0 | Sfixed32Kind \<Rightarrow> VInt32 0
      | Int64Kind \<Rightarrow> VInt64 0 | Sint64Kind \<Rightarrow> VInt64 0 | Sfixed64Kind \<Rightarrow> VInt64 0
      | Uint32Kind \<Rightarrow> VUint32 0 | Fixed32Kind \<Rightarrow> VUint32 0
      | Uint64Kind \<Rightarrow> VUint64 0 | Fixed64Kind \<Rightarrow> VUint64 0
      | FloatKind \<Rightarrow> VFloat32 0
      | DoubleKind \<Rightarrow> VFloat64 0
      | StringKind \<Rightarrow> VString []
      | BytesKind \<Rightarrow> VBytes []
      | MessageKind \<Rightarrow> VMessage (PMsg (fd_message f) [])
      | GroupKind \<Rightarrow> VMessage (PMsg (fd_message f) [])
      | UnknownKind n \<Rightarrow> VInvalid)"

text \<open>
  \<^verbatim>\<open>msg.NewField(f)\<close>: a new value assignable to the field, not stored in the message.
  For a map or a list it is a new, empty container, for a message a new, empty message.
  For a scalar it is the field's default value, which \<^verbatim>\<open>decodeFieldKind\<close> never reads;
  the model takes the zero value there.
\<close>

definition NewField :: "fdesc \<Rightarrow> pval" where
  "NewField f = (if fd_isMap f then VMap [] else if fd_isList f then VList [] else NewElement f)"

subsection \<open>Options\<close>

text \<open>
  \<^verbatim>\<open>options.MarshalOptions.ExtraFields\<close>; of an extra field the decoder reads the
  \<^verbatim>\<open>FieldName\<close> only. The options pointer is taken to be non-nil.
\<close>

record extraField =
  FieldName :: string

record marshalOptions =
  ExtraFields :: "extraField list"

record unmarshalOptions =
  MarshalOptions :: marshalOptions

subsection \<open>The helpers of the package that decode.go calls\<close>

text \<open>
  \<^verbatim>\<open>isWKT\<close>, \<^verbatim>\<open>decodeWKT\<close>, \<^verbatim>\<open>decodeMap\<close> and the coercion helpers
  \<^verbatim>\<open>decodeStringLike\<close>, \<^verbatim>\<open>decodeBoolLike\<close>, \<^verbatim>\<open>decodeIntLike\<close>, \<^verbatim>\<open>decodeBytesLike\<close> are
  functions of the package defined outside decode.go. The decoder is modelled for any
  such functions: they are the fields of a record that every function below takes.
  An \<^verbatim>\<open>error\<close> is its message. \<^verbatim>\<open>decodeWKT\<close> writes to the message it is given, so
  it returns the message with the error; \<^verbatim>\<open>decodeMap\<close> fills the map it is given and
  has no access to the message that owns the field.
\<close>

record helpers =
  isWKT :: "string \<Rightarrow> bool"
  decodeWKT :: "(string \<times> gval) list \<Rightarrow> pmsg \<Rightarrow> pmsg \<times> string option"
  decodeMap :: "gval \<Rightarrow> fdesc \<Rightarrow> (pval \<times> pval) list \<Rightarrow> unmarshalOptions
                  \<Rightarrow> string + (pval \<times> pval) list"
  decodeStringLike :: "gval \<Rightarrow> string \<Rightarrow> string + string"
  decodeBoolLike :: "gval \<Rightarrow> string \<Rightarrow> string + bool"
  decodeIntLike :: "gval \<Rightarrow> string \<Rightarrow> string + 64 word"
  decodeBytesLike :: "gval \<Rightarrow> string \<Rightarrow> string + 8 word list"

text \<open>
  Modelled from the spec: \<^verbatim>\<open>decodeListLike\<close>, a helper of the package defined outside
  decode.go. The spec (sections 4.4 and 6) gives it as the shape check of list-like
  input: a value shaped as an ordered sequence is returned as that sequence, and any
  other value fails with a message naming the expected role and the shape received.
\<close>

definition decodeListLike :: "gval \<Rightarrow> string \<Rightarrow> string + gval list" where
  "decodeListLike data role =
     (case data of
        GArray xs \<Rightarrow> Inr xs
      | _ \<Rightarrow> Inl (''expected '' @ role @ '', got '' @ goTypeName data))"

subsection \<open>findField\<close>

text \<open>\<^verbatim>\<open>desc.Fields().ByJSONName(name)\<close> and \<^verbatim>\<open>desc.Fields().ByTextName(name)\<close>.\<close>

definition ByJSONName :: "mdesc \<Rightarrow> string \<Rightarrow> fdesc option" where
  "ByJSONName desc name = find (\<lambda>fd. fd_jsonName fd = name) (md_fields desc)"

definition ByTextName :: "mdesc \<Rightarrow> string \<Rightarrow> fdesc option" where
  "ByTextName desc name = find (\<lambda>fd. fd_textName fd = name) (md_fields desc)"

text \<open>
  The result is the pair the Go function returns: the field descriptor (\<open>None\<close> is
  \<^verbatim>\<open>nil\<close>) and the flag.
\<close>

definition findField :: "mdesc \<Rightarrow> string \<Rightarrow> unmarshalOptions \<Rightarrow> fdesc option \<times> bool" where
  "findField desc name options =
     (case ByJSONName desc name of
        Some fd \<Rightarrow> (Some fd, True)
      | None \<Rightarrow>
         (case ByTextName desc name of
            Some fd \<Rightarrow> (Some fd, True)
          | None \<Rightarrow>
              if list_ex (\<lambda>extraField. FieldName extraField = name)
                   (ExtraFields (MarshalOptions options))
              then (None, True)
              else (None, False)))"

subsection \<open>decodeMessage, decodeField and decodeFieldKind\<close>

text \<open>
  The three functions call each other; the loop over the entries of the input map and
  the loop over the elements of a list are functions of their own. A function that
  writes to the message returns the message as it leaves it, with the error
  (\<open>None\<close> is \<^verbatim>\<open>nil\<close>). \<^verbatim>\<open>decodeFieldKind\<close> returns the value or the error; the message
  it is given in \<open>mutable\<close> is a new one at both places that call it, and is dropped
  when it fails; \<^verbatim>\<open>mutable.Message()\<close> panics on a value that is not a message, which
  is an error of its own here. The new map \<^verbatim>\<open>val.NewField(f).Map()\<close> and the new list
  \<^verbatim>\<open>val.NewField(f).List()\<close> are empty: \<open>[]\<close>. A \<^verbatim>\<open>case\<close> of the Go switch that
  lists several kinds is one branch for each of them.
\<close>

function (sequential)
    decodeMessage :: "helpers \<Rightarrow> schema \<Rightarrow> unmarshalOptions \<Rightarrow> gval \<Rightarrow> pmsg
                        \<Rightarrow> pmsg \<times> string option"
and decodeMessage_loop :: "helpers \<Rightarrow> schema \<Rightarrow> unmarshalOptions \<Rightarrow> (string \<times> gval) list
                        \<Rightarrow> pmsg \<Rightarrow> pmsg \<times> string option"
and decodeField :: "helpers \<Rightarrow> schema \<Rightarrow> unmarshalOptions \<Rightarrow> gval \<Rightarrow> pmsg \<Rightarrow> fdesc
                        \<Rightarrow> pmsg \<times> string option"
and decodeField_loop :: "helpers \<Rightarrow> schema \<Rightarrow> unmarshalOptions \<Rightarrow> gval list \<Rightarrow> pval list
                        \<Rightarrow> fdesc \<Rightarrow> string + pval list"
and decodeFieldKind :: "helpers \<Rightarrow> schema \<Rightarrow> unmarshalOptions \<Rightarrow> gval \<Rightarrow> pval \<Rightarrow> fdesc
                        \<Rightarrow> string + pval"
where
  "decodeMessage h sch options GNil msg = (msg, None)"
| "decodeMessage h sch options (GMap d) msg =
     (if isWKT h (md_fullName (Descriptor sch msg)) then decodeWKT h d msg
      else
        (case map_of d (md_fullName (Descriptor sch msg)) of
           Some msgData \<Rightarrow>
             if length d = 1 then decodeMessage h sch options msgData msg
             else decodeMessage_loop h sch options d msg
         | None \<Rightarrow> decodeMessage_loop h sch options d msg))"
| "decodeMessage h sch options data msg =
     (msg, Some (''expected message encoded as map[string]interface{}, got '' @ goTypeName data))"
| "decodeMessage_loop h sch options [] msg = (msg, None)"
| "decodeMessage_loop h sch options ((fieldName, fieldValue) # rest) msg =
     (case findField (Descriptor sch msg) fieldName options of
        (fd, ok) \<Rightarrow>
          if \<not> ok then (msg, Some (''unexpected field '' @ fieldName))
          else
            (case fd of
               None \<Rightarrow> decodeMessage_loop h sch options rest msg
             | Some fd \<Rightarrow>
                 (case decodeField h sch options fieldValue msg fd of
                    (msg', Some err) \<Rightarrow> (msg', Some err)
                  | (msg', None) \<Rightarrow> decodeMessage_loop h sch options rest msg')))"
| "decodeField h sch options GNil val f = (val, None)"
| "decodeField h sch options data val f =
     (if fd_isMap f then
        (case decodeMap h data f [] options of
           Inl err \<Rightarrow> (val, Some err)
         | Inr mp \<Rightarrow> (msgSet val f (VMap mp), None))
      else if fd_isList f then
        (case decodeListLike data ''array'' of
           Inl err \<Rightarrow> (val, Some err)
         | Inr listData \<Rightarrow>
             (case decodeField_loop h sch options listData [] f of
                Inl err \<Rightarrow> (val, Some err)
              | Inr list \<Rightarrow> (msgSet val f (VList list), None)))
      else
        (case decodeFieldKind h sch options data (NewField f) f of
           Inl err \<Rightarrow> (val, Some err)
         | Inr fieldValue \<Rightarrow> (msgSet val f fieldValue, None)))"
| "decodeField_loop h sch options [] list f = Inr list"
| "decodeField_loop h sch options (el # rest) list f =
     (if el = GNil then decodeField_loop h sch options rest (list @ [NewElement f]) f
      else
        (case decodeFieldKind h sch options el (NewElement f) f of
           Inl err \<Rightarrow> Inl err
         | Inr fieldValue \<Rightarrow> decodeField_loop h sch options rest (list @ [fieldValue]) f))"
| "decodeFieldKind h sch options data mutable f =
     (case fd_kind f of
        MessageKind \<Rightarrow>
          (case mutable of
             VMessage m \<Rightarrow>
               (case decodeMessage h sch options data m of
                  (m', Some err) \<Rightarrow> Inl err
                | (m', None) \<Rightarrow> Inr (VMessage m'))
           | _ \<Rightarrow> Inl ''panic: value is not a message'')
      | GroupKind \<Rightarrow>
          (case mutable of
             VMessage m \<Rightarrow>
               (case decodeMessage h sch options data m of
                  (m', Some err) \<Rightarrow> Inl err
                | (m', None) \<Rightarrow> Inr (VMessage m'))
           | _ \<Rightarrow> Inl ''panic: value is not a message'')
      | StringKind \<Rightarrow>
          (case decodeStringLike h data ''string'' of
             Inl err \<Rightarrow> Inl (''field '' @ fd_name f @ '': '' @ err)
           | Inr str \<Rightarrow> Inr (VString str))
      | BoolKind \<Rightarrow>
          (case decodeBoolLike h data ''boolean'' of
             Inl err \<Rightarrow> Inl (''field '' @ fd_name f @ '': '' @ err)
           | Inr bo \<Rightarrow> Inr (VBool bo))
      | Int32Kind \<Rightarrow>
          (case decodeIntLike h data ''int'' of
             Inl err \<Rightarrow> Inl (''field '' @ fd_name f @ '': '' @ err)
           | Inr i \<Rightarrow> Inr (VInt32 (ucast i)))
      | Sfixed32Kind \<Rightarrow>
          (case decodeIntLike h data ''int'' of
             Inl err \<Rightarrow> Inl (''field '' @ fd_name f @ '': '' @ err)
           | Inr i \<Rightarrow> Inr (VInt32 (ucast i)))
      | Sint32Kind \<Rightarrow>
          (case decodeIntLike h data ''int'' of
             Inl err \<Rightarrow> Inl (''field '' @ fd_name f @ '': '' @ err)
           | Inr i \<Rightarrow> Inr (VInt32 (ucast i)))
      | Int64Kind \<Rightarrow>
          (case decodeIntLike h data ''long'' of
             Inl err \<Rightarrow> Inl (''field '' @ fd_name f @ '': '' @ err)
           | Inr i \<Rightarrow> Inr (VInt64 i))
      | Sfixed64Kind \<Rightarrow>
          (case decodeIntLike h data ''long'' of
             Inl err \<Rightarrow> Inl (''field '' @ fd_name f @ '': '' @ err)
           | Inr i \<Rightarrow> Inr (VInt64 i))
      | Sint64Kind \<Rightarrow>
          (case decodeIntLike h data ''long'' of
             Inl err \<Rightarrow> Inl (''field '' @ fd_name f @ '': '' @ err)
           | Inr i \<Rightarrow> Inr (VInt64 i))
      | Uint32Kind \<Rightarrow>
          (case decodeIntLike h data ''int'' of
             Inl err \<Rightarrow> Inl (''field '' @ fd_name f @ '': '' @ err)
           | Inr i \<Rightarrow> Inr (VUint32 (ucast i)))
      | Fixed32Kind \<Rightarrow>
          (case decodeIntLike h data ''int'' of
             Inl err \<Rightarrow> Inl (''field '' @ fd_name f @ '': '' @ err)
           | Inr i \<Rightarrow> Inr (VUint32 (ucast i)))
      | Uint64Kind \<Rightarrow>
          (case decodeIntLike h data ''long'' of
             Inl err \<Rightarrow> Inl (''field '' @ fd_name f @ '': '' @ err)
           | Inr i \<Rightarrow> Inr (VUint64 i))
      | Fixed64Kind \<Rightarrow>
          (case decodeIntLike h data ''long'' of
             Inl err \<Rightarrow> Inl (''field '' @ fd_name f @ '': '' @ err)
           | Inr i \<Rightarrow> Inr (VUint64 i))
      | BytesKind \<Rightarrow>
          (case decodeBytesLike h data ''bytes'' of
             Inl err \<Rightarrow> Inl (''field '' @ fd_name f @ '': '' @ err)
           | Inr bs \<Rightarrow> Inr (VBytes bs))
      | EnumKind \<Rightarrow>
          (case decodeStringLike h data (ed_fullName (fd_enum f)) of
             Inl err \<Rightarrow> Inl (''field '' @ fd_name f @ '': '' @ err)
           | Inr str \<Rightarrow>
               (case map_of (ed_values (fd_enum f)) str of
                  Some number \<Rightarrow> Inr (VEnum number)
                | None \<Rightarrow> Inr (VEnum 0)))
      | DoubleKind \<Rightarrow>
          (case data of
             GFloat64 dbl \<Rightarrow> Inr (VFloat64 dbl)
           | _ \<Rightarrow> Inl (''field '' @ fd_name f @ '': expected float64, got '' @ goTypeName data))
      | FloatKind \<Rightarrow>
          (case data of
             GFloat32 flt \<Rightarrow> Inr (VFloat32 flt)
           | _ \<Rightarrow> Inl (''field '' @ fd_name f @ '': expected float32, got '' @ goTypeName data))
      | UnknownKind n \<Rightarrow> Inl (''unexpected kind '' @ kindString (fd_kind f)))"
  by pat_completeness auto

text \<open>
  Every recursive call is on a part of the input value: an entry's value, the rest of
  the entries, an element of the sequence that \<open>decodeListLike\<close> returned.
\<close>

lemma decodeListLike_size:
  "decodeListLike data role = Inr xs \<Longrightarrow> size_list size xs < size data"
  by (cases data) (auto simp: decodeListLike_def)

lemma map_of_size:
  "map_of d k = Some v \<Longrightarrow> size v < Suc (size_list (size_prod (\<lambda>_. 0) size) d)"
  by (induction d) (auto split: if_splits)

termination decodeMessage
  apply (relation "inv_image (less_than <*lex*> less_than)
     (\<lambda>x. case x of
        Inl (Inl (h, sch, options, data, msg)) \<Rightarrow> (size data, 0::nat)
      | Inl (Inr (h, sch, options, d, msg)) \<Rightarrow> (size_list (size_prod (\<lambda>_. 0) size) d, 3)
      | Inr (Inl (h, sch, options, data, msg, f)) \<Rightarrow> (size data, 2)
      | Inr (Inr (Inl (h, sch, options, els, list, f))) \<Rightarrow> (size_list size els, 3)
      | Inr (Inr (Inr (h, sch, options, data, mutable, f))) \<Rightarrow> (size data, 1))")
  apply (auto dest: decodeListLike_size map_of_size)
  done

text \<open>\<^verbatim>\<open>decodeJSON\<close>: the entry point, on the message's reflection view.\<close>

definition decodeJSON :: "helpers \<Rightarrow> schema \<Rightarrow> gval \<Rightarrow> pmsg \<Rightarrow> unmarshalOptions
                            \<Rightarrow> pmsg \<times> string option" where
  "decodeJSON h sch data msg options = decodeMessage h sch options data msg"

subsection \<open>A sample schema and sample helpers\<close>

text \<open>
  The theorems below hold for every schema, every options value and every family of
  helpers. To evaluate the decoder at concrete inputs, this section fixes one of each:
  a message type \<open>pkg.Msg\<close> with a string, a repeated int32, an enum, a nested
  message, an int32 and a map field, the well-known type
  \<open>google.protobuf.Timestamp\<close>, and helpers that accept the plain Go value of the
  expected type and fail on any other. \<open>fLevels\<close> is a repeated field of an enum
  whose first value is not numbered zero, as proto2 allows.
\<close>

definition exColor :: edesc where
  "exColor = \<lparr>ed_fullName = ''pkg.Color'', ed_values = [(''RED'', 0), (''BLUE'', 1)]\<rparr>"

definition exField :: "string \<Rightarrow> nat \<Rightarrow> kind \<Rightarrow> fdesc" where
  "exField name number k =
     \<lparr>fd_name = name, fd_jsonName = name, fd_textName = name, fd_number = number,
      fd_kind = k, fd_isMap = False, fd_isList = False,
      fd_enum = \<lparr>ed_fullName = [], ed_values = []\<rparr>, fd_message = []\<rparr>"

definition fName :: fdesc where
  "fName = exField ''name'' 1 StringKind"

definition fNums :: fdesc where
  "fNums = (exField ''nums'' 2 Int32Kind)\<lparr>fd_isList := True\<rparr>"

definition fColor :: fdesc where
  "fColor = (exField ''color'' 3 EnumKind)\<lparr>fd_enum := exColor\<rparr>"

definition fChild :: fdesc where
  "fChild = (exField ''child'' 4 MessageKind)\<lparr>fd_message := ''pkg.Msg''\<rparr>"

definition fN :: fdesc where
  "fN = exField ''n'' 5 Int32Kind"

definition fTags :: fdesc where
  "fTags = (exField ''tags'' 6 MessageKind)\<lparr>fd_isMap := True, fd_message := ''pkg.Msg.TagsEntry''\<rparr>"

definition exLevel :: edesc where
  "exLevel = \<lparr>ed_fullName = ''pkg.Level'', ed_values = [(''LOW'', 5), (''HIGH'', 9)]\<rparr>"

definition fLevels :: fdesc where
  "fLevels = (exField ''levels'' 7 EnumKind)\<lparr>fd_isList := True, fd_enum := exLevel\<rparr>"

definition exSchema :: schema where
  "exSchema n = (if n = ''pkg.Msg'' then [fName, fNums, fColor, fChild, fN, fTags] else [])"

definition exOptions :: unmarshalOptions where
  "exOptions = \<lparr>MarshalOptions = \<lparr>ExtraFields = [\<lparr>FieldName = ''extra''\<rparr>]\<rparr>\<rparr>"

definition exExpected :: "string \<Rightarrow> gval \<Rightarrow> string" where
  "exExpected role data = ''expected '' @ role @ '', got '' @ goTypeName data"

fun exMapEntries :: "(string \<times> gval) list \<Rightarrow> (pval \<times> pval) list \<Rightarrow> string + (pval \<times> pval) list" where
  "exMapEntries [] mp = Inr mp"
| "exMapEntries ((k, GString s) # rest) mp = exMapEntries rest (AList.update (VString k) (VString s) mp)"
| "exMapEntries ((k, v) # rest) mp = Inl (exExpected ''string'' v)"

definition exHelpers :: helpers where
  "exHelpers =
     \<lparr>isWKT = (\<lambda>n. n = ''google.protobuf.Timestamp''),
      decodeWKT = (\<lambda>d msg.
         case map_of d ''long.timestamp-micros'' of
           Some (GInt64 i) \<Rightarrow> (PMsg (msgName msg) (AList.update 1 (VInt64 i) (msgFields msg)), None)
         | _ \<Rightarrow> (msg, Some ''expected long.timestamp-micros'')),
      decodeMap = (\<lambda>data f mp options.
         case data of GMap d \<Rightarrow> exMapEntries d mp | _ \<Rightarrow> Inl (exExpected ''map'' data)),
      decodeStringLike = (\<lambda>data role.
         case data of GString s \<Rightarrow> Inr s | _ \<Rightarrow> Inl (exExpected role data)),
      decodeBoolLike = (\<lambda>data role.
         case data of GBool b \<Rightarrow> Inr b | _ \<Rightarrow> Inl (exExpected role data)),
      decodeIntLike = (\<lambda>data role.
         case data of GInt64 i \<Rightarrow> Inr i | GInt32 i \<Rightarrow> Inr (scast i)
         | _ \<Rightarrow> Inl (exExpected role data)),
      decodeBytesLike = (\<lambda>data role.
         case data of GBytes bs \<Rightarrow> Inr bs | _ \<Rightarrow> Inl (exExpected role data))\<rparr>"

lemmas ex_defs =
  exHelpers_def exSchema_def exOptions_def exExpected_def exColor_def exField_def
  fName_def fNums_def fColor_def fChild_def fN_def fTags_def exLevel_def fLevels_def
  Descriptor_def findField_def ByJSONName_def ByTextName_def NewElement_def NewField_def
  decodeListLike_def

section \<open>Properties\<close>

subsection \<open>Null input\<close>

text \<open>
  C8. For every target message, helpers, schema and options, \<open>decodeMessage\<close> on a
  null value returns no error and the message as it was given: nothing is written.
\<close>

theorem decodeMessage_nil_noop:
  "decodeMessage h sch options GNil msg = (msg, None)"
  by simp

text \<open>
  C10. For every field descriptor, whatever its kind and whether it is a list or a
  map field, \<open>decodeField\<close> on a null value returns no error and the message as it
  was given: a null list or map field leaves the slot as it was, it does not store an
  empty container.
\<close>

theorem decodeField_nil_noop:
  "decodeField h sch options GNil val f = (val, None)"
  by simp

subsection \<open>Union unwrapping\<close>

text \<open>
  The test for a well-known type comes before the test for a union wrapper, so a
  wrapper around a well-known type goes to \<open>decodeWKT\<close> as it is.
\<close>

lemma decodeMessage_fields:
  assumes "\<not> isWKT h (md_fullName (Descriptor sch msg))"
    and "length d \<noteq> 1 \<or> map_of d (md_fullName (Descriptor sch msg)) = None"
  shows "decodeMessage h sch options (GMap d) msg = decodeMessage_loop h sch options d msg"
  using assms by (auto split: option.splits)

text \<open>
  A mapping whose only key is the target's full name. For a target that is not a
  well-known type it decodes as the entry's value does, on the same target. For a
  well-known type it goes to \<open>decodeWKT\<close> as it is: what happens to it there is
  decided outside decode.go.
\<close>

lemma decodeMessage_unwrap:
  "decodeMessage h sch options (GMap [(md_fullName (Descriptor sch msg), msgData)]) msg
   = (if isWKT h (md_fullName (Descriptor sch msg))
      then decodeWKT h [(md_fullName (Descriptor sch msg), msgData)] msg
      else decodeMessage h sch options msgData msg)"
  by simp

subsection \<open>Scalars and enums\<close>

declare decodeFieldKind.simps [simp del]

text \<open>
  Go's conversion \<^verbatim>\<open>int32(i)\<close> of an \<^verbatim>\<open>int64\<close> keeps the low 32 bits: \<open>ucast\<close> to a
  32-bit word. Read unsigned, the result is the value modulo \<open>2 ^ 32\<close>; read as a
  signed 32-bit integer, it is that residue moved into the signed range.
\<close>

lemma uint_low32: "uint (ucast (i :: 64 word) :: 32 word) = sint i mod 2 ^ 32"
proof -
  have "uint (ucast i :: 32 word) = take_bit 32 (uint i)"
    by (simp add: unsigned_ucast_eq)
  also have "\<dots> = take_bit 32 (sint i)"
    by (simp add: sint_uint take_bit_signed_take_bit)
  finally show ?thesis by (simp add: take_bit_eq_mod)
qed

lemma sint_low32:
  "sint (ucast (i :: 64 word) :: 32 word) = (sint i + 2 ^ 31) mod 2 ^ 32 - 2 ^ 31"
proof -
  have "sint (ucast i :: 32 word) = signed_take_bit 31 (uint (ucast i :: 32 word))"
    by (simp add: sint_uint)
  also have "\<dots> = signed_take_bit 31 (take_bit 32 (sint i))"
    by (simp add: uint_low32 take_bit_eq_mod)
  also have "\<dots> = signed_take_bit 31 (sint i)"
    by (simp add: signed_take_bit_take_bit)
  also have "\<dots> = (sint i + 2 ^ 31) mod 2 ^ 32 - 2 ^ 31"
    by (simp add: signed_take_bit_eq_take_bit_shift take_bit_eq_mod)
  finally show ?thesis .
qed

text \<open>
  C7. For a field of kind int32, sfixed32 or sint32 and a value that
  \<open>decodeIntLike\<close> coerces to the 64-bit integer \<open>i\<close>, \<open>decodeFieldKind\<close> returns no
  error, whatever \<open>i\<close> is, and yields the 32-bit integer made of the low 32 bits of
  \<open>i\<close>: the value of \<open>i\<close> modulo \<open>2 ^ 32\<close>, read as a signed 32-bit integer.
  With the sample helpers, \<open>4294967296\<close> decodes to \<open>0\<close>.
\<close>

theorem int32_truncates:
  assumes "fd_kind f = Int32Kind \<or> fd_kind f = Sfixed32Kind \<or> fd_kind f = Sint32Kind"
    and "decodeIntLike h data ''int'' = Inr i"
  shows "\<exists>w. decodeFieldKind h sch options data mutable f = Inr (VInt32 w)
           \<and> uint w = sint i mod 2 ^ 32
           \<and> sint w = (sint i + 2 ^ 31) mod 2 ^ 32 - 2 ^ 31"
proof -
  have "decodeFieldKind h sch options data mutable f = Inr (VInt32 (ucast i))"
    using assms by (auto simp: decodeFieldKind.simps)
  then show ?thesis
    using uint_low32 [of i] sint_low32 [of i] by blast
qed

theorem int32_truncates_witness:
  "(fd_kind fN = Int32Kind \<or> fd_kind fN = Sfixed32Kind \<or> fd_kind fN = Sint32Kind)
   \<and> decodeIntLike exHelpers (GInt64 4294967296) ''int'' = Inr 4294967296
   \<and> decodeFieldKind exHelpers exSchema exOptions (GInt64 4294967296) (NewField fN) fN
       = Inr (VInt32 0)"
  using int32_truncates [of fN exHelpers "GInt64 4294967296" 4294967296 exSchema exOptions
      "NewField fN"]
  by (simp add: ex_defs decodeFieldKind.simps)

text \<open>
  C5. For an enum field and a value that \<open>decodeStringLike\<close> (with the enum's full
  name as its role) coerces to the name \<open>str\<close>: when the enum's value table has no
  entry for \<open>str\<close>, \<open>decodeFieldKind\<close> returns no error and yields the enum number
  \<open>0\<close>; when the table has \<open>str\<close>, it yields that entry's number.
\<close>

theorem enum_unknown_name_is_zero:
  assumes "fd_kind f = EnumKind"
    and "decodeStringLike h data (ed_fullName (fd_enum f)) = Inr str"
  shows "decodeFieldKind h sch options data mutable f =
           Inr (VEnum (case map_of (ed_values (fd_enum f)) str of
                         None \<Rightarrow> 0
                       | Some number \<Rightarrow> number))"
  using assms by (simp add: decodeFieldKind.simps split: option.splits)

theorem enum_unknown_name_is_zero_witness:
  "fd_kind fColor = EnumKind
   \<and> decodeStringLike exHelpers (GString ''GREEN'') (ed_fullName (fd_enum fColor)) = Inr ''GREEN''
   \<and> map_of (ed_values (fd_enum fColor)) ''GREEN'' = None
   \<and> decodeFieldKind exHelpers exSchema exOptions (GString ''GREEN'') (NewField fColor) fColor
       = Inr (VEnum 0)
   \<and> decodeFieldKind exHelpers exSchema exOptions (GString ''BLUE'') (NewField fColor) fColor
       = Inr (VEnum 1)"
  using enum_unknown_name_is_zero [of fColor exHelpers "GString ''GREEN''" "''GREEN''"
      exSchema exOptions "NewField fColor"]
  by (simp add: ex_defs decodeFieldKind.simps)

subsection \<open>Lists and maps\<close>

text \<open>The loop over the elements appends to the list it is given, in input order.\<close>

lemma decodeField_loop_all:
  assumes "list_all2 (\<lambda>el v. if el = GNil then v = NewElement f
                     else decodeFieldKind h sch options el (NewElement f) f = Inr v) els vs"
  shows "decodeField_loop h sch options els list f = Inr (list @ vs)"
  using assms by (induction els vs arbitrary: list rule: list_all2_induct) auto

lemma decodeField_loop_Inr:
  assumes "decodeField_loop h sch options els list f = Inr r"
  shows "\<exists>vs. r = list @ vs
           \<and> list_all2 (\<lambda>el v. if el = GNil then v = NewElement f
                     else decodeFieldKind h sch options el (NewElement f) f = Inr v) els vs"
  using assms
proof (induction els arbitrary: list)
  case Nil
  then show ?case by simp
next
  case (Cons el els)
  show ?case
  proof (cases "el = GNil")
    case True
    with Cons.prems have "decodeField_loop h sch options els (list @ [NewElement f]) f = Inr r"
      by simp
    from Cons.IH [OF this] obtain vs where
      "r = (list @ [NewElement f]) @ vs"
      "list_all2 (\<lambda>el v. if el = GNil then v = NewElement f
                  else decodeFieldKind h sch options el (NewElement f) f = Inr v) els vs"
      by blast
    with True show ?thesis
      by (intro exI [of _ "NewElement f # vs"]) simp
  next
    case False
    with Cons.prems obtain v where
      v: "decodeFieldKind h sch options el (NewElement f) f = Inr v"
      and rest: "decodeField_loop h sch options els (list @ [v]) f = Inr r"
      by (auto split: sum.splits)
    from Cons.IH [OF rest] obtain vs where
      "r = (list @ [v]) @ vs"
      "list_all2 (\<lambda>el v. if el = GNil then v = NewElement f
                  else decodeFieldKind h sch options el (NewElement f) f = Inr v) els vs"
      by blast
    with False v show ?thesis
      by (intro exI [of _ "v # vs"]) simp
  qed
qed

lemma decodeField_loop_fails:
  assumes "el \<in> set els" and "el \<noteq> GNil"
    and "decodeFieldKind h sch options el (NewElement f) f = Inl err"
  shows "\<exists>err'. decodeField_loop h sch options els list f = Inl err'"
  using assms by (induction els arbitrary: list) (auto split: sum.splits)

text \<open>
  C6, as stated (every null element appends the zero value of the element type), fails
  for a list of enums whose first value is not numbered zero: the null element appends
  \<^verbatim>\<open>list.NewElement()\<close>, which for an enum is its first value, here number \<open>5\<close>.
\<close>

theorem list_null_enum_counterexample:
  "fd_isList fLevels \<and> \<not> fd_isMap fLevels \<and> fd_kind fLevels = EnumKind
   \<and> decodeField exHelpers exSchema exOptions (GArray [GNil]) (PMsg ''pkg.Msg'' []) fLevels
       = (PMsg ''pkg.Msg'' [(7, VList [VEnum 5])], None)
   \<and> VEnum 5 \<noteq> VEnum 0"
  by (simp add: ex_defs)

text \<open>
  C6, amended. For a list field and a sequence-shaped value: when every element that
  is not null decodes (by \<open>decodeFieldKind\<close>, the element \<open>el\<close> to \<open>g el\<close>),
  \<open>decodeField\<close> returns no error and stores in the field's slot a list with one
  value for each input element, in input order: \<open>g el\<close> at the position of an
  element that is not null and the new element \<^verbatim>\<open>list.NewElement()\<close> at the position
  of a null one, which is never skipped. The new element is \<open>false\<close>, \<open>0\<close>, the
  empty string or the empty byte sequence for the bool, integer, float, string and
  bytes kinds, a new empty message for message and group, and for an enum the first
  value of the enum, which is \<open>0\<close> only when that value is numbered zero. With the
  sample helpers, decoding \<open>[1, null, 3]\<close> into an int32 list yields \<open>[1, 0, 3]\<close>.
\<close>

theorem list_keeps_order_and_nulls:
  assumes "fd_isList f" and "\<not> fd_isMap f"
    and "\<forall>el \<in> set els. el \<noteq> GNil
           \<longrightarrow> decodeFieldKind h sch options el (NewElement f) f = Inr (g el)"
  shows "decodeField h sch options (GArray els) val f
           = (msgSet val f (VList (map (\<lambda>el. if el = GNil then NewElement f else g el) els)),
              None)
     \<and> (fd_kind f = BoolKind \<longrightarrow> NewElement f = VBool False)
     \<and> (fd_kind f \<in> {Int32Kind, Sint32Kind, Sfixed32Kind} \<longrightarrow> NewElement f = VInt32 0)
     \<and> (fd_kind f \<in> {Int64Kind, Sint64Kind, Sfixed64Kind} \<longrightarrow> NewElement f = VInt64 0)
     \<and> (fd_kind f \<in> {Uint32Kind, Fixed32Kind} \<longrightarrow> NewElement f = VUint32 0)
     \<and> (fd_kind f \<in> {Uint64Kind, Fixed64Kind} \<longrightarrow> NewElement f = VUint64 0)
     \<and> (fd_kind f = FloatKind \<longrightarrow> NewElement f = VFloat32 0)
     \<and> (fd_kind f = DoubleKind \<longrightarrow> NewElement f = VFloat64 0)
     \<and> (fd_kind f = StringKind \<longrightarrow> NewElement f = VString [])
     \<and> (fd_kind f = BytesKind \<longrightarrow> NewElement f = VBytes [])
     \<and> (fd_kind f \<in> {MessageKind, GroupKind}
          \<longrightarrow> NewElement f = VMessage (PMsg (fd_message f) []))
     \<and> (fd_kind f = EnumKind
          \<longrightarrow> NewElement f = VEnum (case ed_values (fd_enum f) of
                                       [] \<Rightarrow> 0
                                     | (name, number) # _ \<Rightarrow> number))"
proof -
  have "list_all2 (\<lambda>el v. if el = GNil then v = NewElement f
                   else decodeFieldKind h sch options el (NewElement f) f = Inr v)
          els (map (\<lambda>el. if el = GNil then NewElement f else g el) els)"
    using assms(3) by (simp add: list_all2_map2 list_all2_same)
  from decodeField_loop_all [OF this, of "[]"] assms(1,2)
  have "decodeField h sch options (GArray els) val f
          = (msgSet val f (VList (map (\<lambda>el. if el = GNil then NewElement f else g el) els)),
             None)"
    by (simp add: decodeListLike_def)
  then show ?thesis
    by (auto simp: NewElement_def)
qed

theorem list_keeps_order_and_nulls_witness:
  "fd_isList fNums \<and> \<not> fd_isMap fNums \<and> fd_kind fNums = Int32Kind
   \<and> decodeFieldKind exHelpers exSchema exOptions (GInt64 1) (NewElement fNums) fNums
       = Inr (VInt32 1)
   \<and> decodeFieldKind exHelpers exSchema exOptions (GInt64 3) (NewElement fNums) fNums
       = Inr (VInt32 3)
   \<and> NewElement fNums = VInt32 0
   \<and> decodeField exHelpers exSchema exOptions (GArray [GInt64 1, GNil, GInt64 3])
         (PMsg ''pkg.Msg'' []) fNums
       = (PMsg ''pkg.Msg'' [(2, VList [VInt32 1, VInt32 0, VInt32 3])], None)"
  using list_keeps_order_and_nulls [of fNums "[GInt64 1, GNil, GInt64 3]"
      exHelpers exSchema exOptions
      "\<lambda>el. case el of GInt64 i \<Rightarrow> VInt32 (ucast i) | _ \<Rightarrow> VInvalid" "PMsg ''pkg.Msg'' []"]
  by (simp add: ex_defs decodeFieldKind.simps)

lemma decodeField_not_nil:
  assumes "data \<noteq> GNil"
  shows "decodeField h sch options data val f =
     (if fd_isMap f then
        (case decodeMap h data f [] options of
           Inl err \<Rightarrow> (val, Some err)
         | Inr mp \<Rightarrow> (msgSet val f (VMap mp), None))
      else if fd_isList f then
        (case decodeListLike data ''array'' of
           Inl err \<Rightarrow> (val, Some err)
         | Inr listData \<Rightarrow>
             (case decodeField_loop h sch options listData [] f of
                Inl err \<Rightarrow> (val, Some err)
              | Inr list \<Rightarrow> (msgSet val f (VList list), None)))
      else
        (case decodeFieldKind h sch options data (NewField f) f of
           Inl err \<Rightarrow> (val, Some err)
         | Inr fieldValue \<Rightarrow> (msgSet val f fieldValue, None)))"
  using assms by (cases data) simp_all

text \<open>Whatever the field, a \<open>decodeField\<close> that fails returns the message as it was given.\<close>

lemma decodeField_error_unchanged:
  assumes "decodeField h sch options data val f = (val', Some err)"
  shows "val' = val"
proof (cases "data = GNil")
  case True
  with assms show ?thesis by simp
next
  case False
  with assms show ?thesis
    by (auto simp: decodeField_not_nil split: if_splits sum.splits)
qed

text \<open>
  C3. For every list field and every map field: (1) when \<open>decodeField\<close> fails, the
  message it returns is the message it was given, so the field's slot is as it was and
  no partly built container is stored; (2) for a list field, when an element of the
  input sequence fails to decode, \<open>decodeField\<close> fails; (3) for a map field, when
  \<open>decodeMap\<close> fails, \<open>decodeField\<close> fails with that error; (4) for a list field,
  when \<open>decodeField\<close> succeeds, every element was decoded and the slot holds the list
  of all their values; (5) for a map field, when \<open>decodeField\<close> succeeds on a value
  that is not null, \<open>decodeMap\<close> succeeded and the slot holds the map it built.
\<close>

theorem container_commit_all_or_nothing:
  assumes "fd_isMap f \<or> fd_isList f"
  shows
    "(\<forall>val' err. decodeField h sch options data val f = (val', Some err) \<longrightarrow> val' = val)
     \<and> (\<forall>els el err. \<not> fd_isMap f \<longrightarrow> data = GArray els \<longrightarrow> el \<in> set els \<longrightarrow> el \<noteq> GNil
            \<longrightarrow> decodeFieldKind h sch options el (NewElement f) f = Inl err
            \<longrightarrow> (\<exists>err'. decodeField h sch options data val f = (val, Some err')))
     \<and> (\<forall>err. fd_isMap f \<longrightarrow> data \<noteq> GNil \<longrightarrow> decodeMap h data f [] options = Inl err
            \<longrightarrow> decodeField h sch options data val f = (val, Some err))
     \<and> (\<forall>els val'. \<not> fd_isMap f \<longrightarrow> data = GArray els
            \<longrightarrow> decodeField h sch options data val f = (val', None)
            \<longrightarrow> (\<exists>vs. val' = msgSet val f (VList vs)
                   \<and> list_all2 (\<lambda>el v. if el = GNil then v = NewElement f
                        else decodeFieldKind h sch options el (NewElement f) f = Inr v) els vs))
     \<and> (\<forall>val'. fd_isMap f \<longrightarrow> data \<noteq> GNil
            \<longrightarrow> decodeField h sch options data val f = (val', None)
            \<longrightarrow> (\<exists>mp. decodeMap h data f [] options = Inr mp
                   \<and> val' = msgSet val f (VMap mp)))"
proof (intro conjI allI impI)
  fix val' err
  assume "decodeField h sch options data val f = (val', Some err)"
  then show "val' = val" by (rule decodeField_error_unchanged)
next
  fix els el err
  assume nm: "\<not> fd_isMap f" and d: "data = GArray els"
    and el: "el \<in> set els" "el \<noteq> GNil"
      "decodeFieldKind h sch options el (NewElement f) f = Inl err"
  from nm assms have l: "fd_isList f" by simp
  from decodeField_loop_fails [OF el] obtain err' where
    "decodeField_loop h sch options els [] f = Inl err'" by blast
  with nm l d have "decodeField h sch options data val f = (val, Some err')"
    by (simp add: decodeListLike_def)
  then show "\<exists>err'. decodeField h sch options data val f = (val, Some err')" ..
next
  fix err
  assume "fd_isMap f" "data \<noteq> GNil" "decodeMap h data f [] options = Inl err"
  then show "decodeField h sch options data val f = (val, Some err)"
    by (simp add: decodeField_not_nil)
next
  fix els val'
  assume nm: "\<not> fd_isMap f" and d: "data = GArray els"
    and ok: "decodeField h sch options data val f = (val', None)"
  from nm assms have l: "fd_isList f" by simp
  from ok nm l d obtain r where r: "decodeField_loop h sch options els [] f = Inr r"
    and v: "val' = msgSet val f (VList r)"
    by (auto simp: decodeListLike_def split: sum.splits)
  from decodeField_loop_Inr [OF r] have
    "list_all2 (\<lambda>el v. if el = GNil then v = NewElement f
               else decodeFieldKind h sch options el (NewElement f) f = Inr v) els r"
    by simp
  with v show "\<exists>vs. val' = msgSet val f (VList vs)
          \<and> list_all2 (\<lambda>el v. if el = GNil then v = NewElement f
               else decodeFieldKind h sch options el (NewElement f) f = Inr v) els vs"
    by blast
next
  fix val'
  assume "fd_isMap f" "data \<noteq> GNil" "decodeField h sch options data val f = (val', None)"
  then show "\<exists>mp. decodeMap h data f [] options = Inr mp \<and> val' = msgSet val f (VMap mp)"
    by (auto simp: decodeField_not_nil split: sum.splits)
qed

theorem container_commit_all_or_nothing_witness:
  "(fd_isMap fNums \<or> fd_isList fNums)
   \<and> decodeFieldKind exHelpers exSchema exOptions (GString ''x'') (NewElement fNums) fNums
       = Inl ''field nums: expected int, got string''
   \<and> decodeField exHelpers exSchema exOptions (GArray [GInt64 1, GString ''x''])
         (PMsg ''pkg.Msg'' [(2, VList [VInt32 7])]) fNums
       = (PMsg ''pkg.Msg'' [(2, VList [VInt32 7])], Some ''field nums: expected int, got string'')
   \<and> decodeField exHelpers exSchema exOptions (GArray [GInt64 1, GInt64 2])
         (PMsg ''pkg.Msg'' [(2, VList [VInt32 7])]) fNums
       = (PMsg ''pkg.Msg'' [(2, VList [VInt32 1, VInt32 2])], None)"
  using container_commit_all_or_nothing [of fNums exHelpers exSchema exOptions
      "GArray [GInt64 1, GString ''x'']" "PMsg ''pkg.Msg'' [(2, VList [VInt32 7])]"]
  by (simp add: ex_defs decodeFieldKind.simps)


subsection \<open>The loop over the entries of the input mapping\<close>

lemma msgName_msgSet: "msgName (msgSet val f v) = msgName val"
  by (cases val) simp

lemma decodeField_msgName:
  assumes "decodeField h sch options data val f = (val', r)"
  shows "msgName val' = msgName val"
proof (cases "data = GNil")
  case True
  with assms show ?thesis by simp
next
  case False
  with assms show ?thesis
    by (auto simp: decodeField_not_nil msgName_msgSet split: if_splits sum.splits)
qed

lemma Descriptor_msgName:
  "msgName a = msgName b \<Longrightarrow> Descriptor sch a = Descriptor sch b"
  by (simp add: Descriptor_def)

lemma decodeMessage_loop_msgName:
  assumes "decodeMessage_loop h sch options d msg = (msg', r)"
  shows "msgName msg' = msgName msg"
  using assms
proof (induction d arbitrary: msg)
  case Nil
  then show ?case by simp
next
  case (Cons e d)
  obtain k v where e: "e = (k, v)" by (cases e)
  obtain fd ok where ff: "findField (Descriptor sch msg) k options = (fd, ok)"
    by (cases "findField (Descriptor sch msg) k options")
  show ?case
  proof (cases ok)
    case False
    with Cons.prems e ff show ?thesis by simp
  next
    case True
    show ?thesis
    proof (cases fd)
      case None
      with Cons.prems e ff True have "decodeMessage_loop h sch options d msg = (msg', r)"
        by simp
      then show ?thesis by (rule Cons.IH)
    next
      case (Some f)
      obtain m1 r1 where df: "decodeField h sch options v msg f = (m1, r1)"
        by (cases "decodeField h sch options v msg f")
      then have n1: "msgName m1 = msgName msg" by (rule decodeField_msgName)
      show ?thesis
      proof (cases r1)
        case None
        with Cons.prems e ff True Some df
        have "decodeMessage_loop h sch options d m1 = (msg', r)" by simp
        then have "msgName msg' = msgName m1" by (rule Cons.IH)
        with n1 show ?thesis by simp
      next
        case (Some err)
        with Cons.prems e ff True \<open>fd = Some f\<close> df have "msg' = m1" by simp
        with n1 show ?thesis by simp
      qed
    qed
  qed
qed

text \<open>Entries that decode with no error hand the message on to the entries after them.\<close>

lemma decodeMessage_loop_append:
  assumes "decodeMessage_loop h sch options pre msg = (msg1, None)"
  shows "decodeMessage_loop h sch options (pre @ rest) msg
         = decodeMessage_loop h sch options rest msg1"
  using assms
proof (induction pre arbitrary: msg)
  case Nil
  then show ?case by simp
next
  case (Cons e pre)
  obtain k v where e: "e = (k, v)" by (cases e)
  obtain fd ok where ff: "findField (Descriptor sch msg) k options = (fd, ok)"
    by (cases "findField (Descriptor sch msg) k options")
  from Cons.prems e ff have ok: "ok" by (cases ok) auto
  show ?case
  proof (cases fd)
    case None
    with Cons.prems e ff ok have "decodeMessage_loop h sch options pre msg = (msg1, None)"
      by simp
    from Cons.IH [OF this] e ff ok None show ?thesis by simp
  next
    case (Some f)
    obtain m1 r1 where df: "decodeField h sch options v msg f = (m1, r1)"
      by (cases "decodeField h sch options v msg f")
    from Cons.prems e ff ok Some df have r1: "r1 = None" by (cases r1) auto
    with Cons.prems e ff ok Some df
    have "decodeMessage_loop h sch options pre m1 = (msg1, None)" by simp
    from Cons.IH [OF this] e ff ok Some df r1 show ?thesis by simp
  qed
qed

lemma decodeMessage_loop_findField:
  assumes "decodeMessage_loop h sch options pre msg = (msg1, r)"
  shows "findField (Descriptor sch msg1) k options = findField (Descriptor sch msg) k options"
  using decodeMessage_loop_msgName [OF assms] Descriptor_msgName [of msg1 msg sch] by simp

subsection \<open>The field name in errors\<close>

lemma decodeFieldKind_scalar_error:
  assumes "fd_kind f \<noteq> MessageKind" and "fd_kind f \<noteq> GroupKind"
    and "\<forall>n. fd_kind f \<noteq> UnknownKind n"
    and "decodeFieldKind h sch options data mutable f = Inl err"
  shows "\<exists>cause. err = ''field '' @ fd_name f @ '': '' @ cause"
  using assms
  by (cases "fd_kind f") (auto simp: decodeFieldKind.simps split: sum.splits option.splits gval.splits)

lemma decodeField_loop_Inl:
  assumes "decodeField_loop h sch options els list f = Inl err"
  shows "\<exists>el \<in> set els. decodeFieldKind h sch options el (NewElement f) f = Inl err"
  using assms by (induction els arbitrary: list) (auto split: if_splits sum.splits)

lemma decodeField_scalar_error:
  assumes "fd_kind f \<noteq> MessageKind" and "fd_kind f \<noteq> GroupKind"
    and "\<forall>n. fd_kind f \<noteq> UnknownKind n"
    and "\<not> fd_isMap f" and "fd_isList f \<longrightarrow> (\<exists>els. data = GArray els)"
    and "decodeField h sch options data val f = (val', Some err)"
  shows "\<exists>cause. err = ''field '' @ fd_name f @ '': '' @ cause"
proof (cases "fd_isList f")
  case True
  with assms(5) obtain els where d: "data = GArray els" by blast
  with assms(4,6) True have "decodeField_loop h sch options els [] f = Inl err"
    by (auto simp: decodeListLike_def split: sum.splits)
  from decodeField_loop_Inl [OF this] obtain el where
    "decodeFieldKind h sch options el (NewElement f) f = Inl err" by blast
  with assms(1-3) show ?thesis by (rule decodeFieldKind_scalar_error)
next
  case False
  from assms(6) have "data \<noteq> GNil" by auto
  with assms(4,6) False have "decodeFieldKind h sch options data (NewField f) f = Inl err"
    by (auto simp: decodeField_not_nil split: sum.splits)
  with assms(1-3) show ?thesis by (rule decodeFieldKind_scalar_error)
qed


text \<open>
  C2, as stated (the error of a failing field carries that field's name, for every
  kind, message fields included), fails: for the message field \<open>child\<close> given a
  string, the per-field decode fails and \<open>decodeMessage\<close> returns the error of the
  nested \<open>decodeMessage\<close> as it is, with no field name in front.
\<close>

theorem field_error_message_counterexample:
  "decodeField exHelpers exSchema exOptions (GString ''x'') (PMsg ''pkg.Msg'' []) fChild
     = (PMsg ''pkg.Msg'' [], Some ''expected message encoded as map[string]interface{}, got string'')
   \<and> decodeMessage exHelpers exSchema exOptions (GMap [(''child'', GString ''x'')])
         (PMsg ''pkg.Msg'' [])
     = (PMsg ''pkg.Msg'' [], Some ''expected message encoded as map[string]interface{}, got string'')
   \<and> \<not> (\<exists>cause. ''expected message encoded as map[string]interface{}, got string''
                 = ''field '' @ fd_name fChild @ '': '' @ cause)"
  by (simp add: ex_defs decodeFieldKind.simps)

text \<open>
  C2, amended. Take a target that is not a well-known type, an input mapping that is
  not a union wrapper, and an entry of it that resolves to the field \<open>f\<close>, such that
  the entries visited before it decode with no error and the per-field decode of the
  entry fails with \<open>err\<close>. Then \<open>decodeMessage\<close> returns \<open>err\<close> as it is. When
  \<open>f\<close> has any of the sixteen scalar and enum kinds (not message, not group), is not
  a map field and, if it is a list field, is given a sequence, \<open>err\<close> is
  \<open>field <name>: <cause>\<close> with the name of \<open>f\<close>. When \<open>f\<close> is a singular field of
  kind message or group, \<open>err\<close> is the error of the nested \<open>decodeMessage\<close>, with
  nothing added.
\<close>

theorem field_error_names_scalar_field:
  assumes "\<not> isWKT h (md_fullName (Descriptor sch msg))"
    and "length (pre @ (fieldName, fieldValue) # post) \<noteq> 1
         \<or> map_of (pre @ (fieldName, fieldValue) # post) (md_fullName (Descriptor sch msg)) = None"
    and "decodeMessage_loop h sch options pre msg = (msg1, None)"
    and "findField (Descriptor sch msg) fieldName options = (Some f, True)"
    and "decodeField h sch options fieldValue msg1 f = (msg2, Some err)"
  shows "decodeMessage h sch options (GMap (pre @ (fieldName, fieldValue) # post)) msg
           = (msg1, Some err)
     \<and> (fd_kind f \<noteq> MessageKind \<and> fd_kind f \<noteq> GroupKind \<and> (\<forall>n. fd_kind f \<noteq> UnknownKind n)
          \<and> \<not> fd_isMap f \<and> (fd_isList f \<longrightarrow> (\<exists>els. fieldValue = GArray els))
          \<longrightarrow> (\<exists>cause. err = ''field '' @ fd_name f @ '': '' @ cause))
     \<and> ((fd_kind f = MessageKind \<or> fd_kind f = GroupKind) \<and> \<not> fd_isMap f \<and> \<not> fd_isList f
          \<longrightarrow> (\<exists>m m'. NewField f = VMessage m
                 \<and> decodeMessage h sch options fieldValue m = (m', Some err)))"
proof (intro conjI impI)
  have same: "msg2 = msg1"
    using assms(5) by (rule decodeField_error_unchanged)
  have "findField (Descriptor sch msg1) fieldName options = (Some f, True)"
    using decodeMessage_loop_findField [OF assms(3)] assms(4) by simp
  with assms(5) same
  have "decodeMessage_loop h sch options ((fieldName, fieldValue) # post) msg1 = (msg1, Some err)"
    by simp
  with decodeMessage_loop_append [OF assms(3), of "(fieldName, fieldValue) # post"]
  have "decodeMessage_loop h sch options (pre @ (fieldName, fieldValue) # post) msg
          = (msg1, Some err)"
    by simp
  with decodeMessage_fields [OF assms(1,2)]
  show "decodeMessage h sch options (GMap (pre @ (fieldName, fieldValue) # post)) msg
          = (msg1, Some err)"
    by simp
next
  assume "fd_kind f \<noteq> MessageKind \<and> fd_kind f \<noteq> GroupKind \<and> (\<forall>n. fd_kind f \<noteq> UnknownKind n)
          \<and> \<not> fd_isMap f \<and> (fd_isList f \<longrightarrow> (\<exists>els. fieldValue = GArray els))"
  with assms(5) show "\<exists>cause. err = ''field '' @ fd_name f @ '': '' @ cause"
    using decodeField_scalar_error [of f fieldValue h sch options msg1 msg2 err] by blast
next
  assume a: "(fd_kind f = MessageKind \<or> fd_kind f = GroupKind) \<and> \<not> fd_isMap f \<and> \<not> fd_isList f"
  from assms(5) have nn: "fieldValue \<noteq> GNil" by auto
  from a have nf: "NewField f = VMessage (PMsg (fd_message f) [])"
    by (auto simp: NewField_def NewElement_def)
  from assms(5) a nn
  have "decodeFieldKind h sch options fieldValue (NewField f) f = Inl err"
    by (auto simp: decodeField_not_nil split: sum.splits)
  with a nf obtain m' where
    "decodeMessage h sch options fieldValue (PMsg (fd_message f) []) = (m', Some err)"
    by (auto simp: decodeFieldKind.simps split: prod.splits option.splits)
  with nf show "\<exists>m m'. NewField f = VMessage m
                 \<and> decodeMessage h sch options fieldValue m = (m', Some err)"
    by blast
qed

theorem field_error_names_scalar_field_witness:
  "\<not> isWKT exHelpers (md_fullName (Descriptor exSchema (PMsg ''pkg.Msg'' [])))
   \<and> decodeMessage_loop exHelpers exSchema exOptions [(''name'', GString ''a'')]
        (PMsg ''pkg.Msg'' []) = (PMsg ''pkg.Msg'' [(1, VString ''a'')], None)
   \<and> findField (Descriptor exSchema (PMsg ''pkg.Msg'' [])) ''n'' exOptions = (Some fN, True)
   \<and> decodeField exHelpers exSchema exOptions (GString ''oops'')
        (PMsg ''pkg.Msg'' [(1, VString ''a'')]) fN
      = (PMsg ''pkg.Msg'' [(1, VString ''a'')], Some ''field n: expected int, got string'')
   \<and> decodeMessage exHelpers exSchema exOptions
        (GMap [(''name'', GString ''a''), (''n'', GString ''oops''), (''color'', GString ''RED'')])
        (PMsg ''pkg.Msg'' [])
      = (PMsg ''pkg.Msg'' [(1, VString ''a'')], Some ''field n: expected int, got string'')"
  using field_error_names_scalar_field [of exHelpers exSchema "PMsg ''pkg.Msg'' []"
      "[(''name'', GString ''a'')]" "''n''" "GString ''oops''" "[(''color'', GString ''RED'')]"
      exOptions "PMsg ''pkg.Msg'' [(1, VString ''a'')]" fN
      "PMsg ''pkg.Msg'' [(1, VString ''a'')]" "''field n: expected int, got string''"]
  by (simp add: ex_defs decodeFieldKind.simps)


subsection \<open>Unknown and ignored field names\<close>

text \<open>The loop never returns without an error once an entry's name is not found.\<close>

lemma decodeMessage_loop_unknown_fails:
  assumes "(k, v) \<in> set d"
    and "findField (Descriptor sch msg) k options = (fd, False)"
  shows "\<exists>msg' err. decodeMessage_loop h sch options d msg = (msg', Some err)"
  using assms
proof (induction d arbitrary: msg)
  case Nil
  then show ?case by simp
next
  case (Cons e d)
  obtain k0 v0 where e: "e = (k0, v0)" by (cases e)
  obtain fd0 ok0 where ff: "findField (Descriptor sch msg) k0 options = (fd0, ok0)"
    by (cases "findField (Descriptor sch msg) k0 options")
  show ?case
  proof (cases ok0)
    case False
    with e ff show ?thesis by simp
  next
    case True
    with Cons.prems e ff have later: "(k, v) \<in> set d" by auto
    show ?thesis
    proof (cases fd0)
      case None
      from Cons.IH [OF later Cons.prems(2)] e ff True None show ?thesis by simp
    next
      case (Some f)
      obtain m1 r1 where df: "decodeField h sch options v0 msg f = (m1, r1)"
        by (cases "decodeField h sch options v0 msg f")
      show ?thesis
      proof (cases r1)
        case None
        from df have "msgName m1 = msgName msg" by (rule decodeField_msgName)
        then have "findField (Descriptor sch m1) k options = (fd, False)"
          using Cons.prems(2) Descriptor_msgName [of m1 msg sch] by simp
        from Cons.IH [OF later this] e ff True Some df None show ?thesis by simp
      next
        case (Some err)
        with e ff True \<open>fd0 = Some f\<close> df show ?thesis by simp
      qed
    qed
  qed
qed

text \<open>
  \<open>findField\<close> answers \<open>(nil, false)\<close> exactly for a name that no field has as
  its JSON name or its text name and that no extra field of the options has.
\<close>

lemma findField_not_found:
  assumes "ByJSONName desc name = None" and "ByTextName desc name = None"
    and "\<forall>extraField \<in> set (ExtraFields (MarshalOptions options)). FieldName extraField \<noteq> name"
  shows "findField desc name options = (None, False)"
  using assms by (simp add: findField_def list_ex_iff)

text \<open>
  C4, as stated (a key that resolves to no field and matches no extra field makes
  \<open>decodeMessage\<close> fail with the unknown-field error that names it), fails twice.
  A mapping whose only key is the target's full name is a union wrapper: the key
  resolves to no field, and \<open>decodeMessage\<close> unwraps it and returns no error. And
  when an entry visited earlier fails, \<open>decodeMessage\<close> returns that entry's error,
  which does not name the unknown key: here the message field \<open>child\<close> is given a
  string, which \<open>decodeMessage\<close> itself rejects.
\<close>

theorem unknown_field_counterexample:
  "ByJSONName (Descriptor exSchema (PMsg ''pkg.Msg'' [])) ''pkg.Msg'' = None
   \<and> ByTextName (Descriptor exSchema (PMsg ''pkg.Msg'' [])) ''pkg.Msg'' = None
   \<and> \<not> (\<exists>extraField \<in> set (ExtraFields (MarshalOptions exOptions)).
            FieldName extraField = ''pkg.Msg'')
   \<and> decodeMessage exHelpers exSchema exOptions (GMap [(''pkg.Msg'', GNil)]) (PMsg ''pkg.Msg'' [])
       = (PMsg ''pkg.Msg'' [], None)
   \<and> ByJSONName (Descriptor exSchema (PMsg ''pkg.Msg'' [])) ''bogus'' = None
   \<and> ByTextName (Descriptor exSchema (PMsg ''pkg.Msg'' [])) ''bogus'' = None
   \<and> \<not> (\<exists>extraField \<in> set (ExtraFields (MarshalOptions exOptions)).
            FieldName extraField = ''bogus'')
   \<and> decodeMessage exHelpers exSchema exOptions
         (GMap [(''child'', GString ''x''), (''bogus'', GInt64 1)]) (PMsg ''pkg.Msg'' [])
       = (PMsg ''pkg.Msg'' [],
          Some ''expected message encoded as map[string]interface{}, got string'')"
  by (simp add: ex_defs decodeFieldKind.simps)

text \<open>
  C4, amended. For a target that is not a well-known type and an input mapping that is
  not a union wrapper: when the mapping has a key that no field has as its JSON name
  or its text name and that no extra field of the options has, \<open>findField\<close> answers
  \<open>(nil, false)\<close> for it and \<open>decodeMessage\<close> returns an error, so the entry is
  never dropped silently; and when the entries visited before that key decode with no
  error, the error is \<open>unexpected field <key>\<close>.
\<close>

theorem unknown_field_fails:
  assumes "\<not> isWKT h (md_fullName (Descriptor sch msg))"
    and "length d \<noteq> 1 \<or> map_of d (md_fullName (Descriptor sch msg)) = None"
    and "(fieldName, fieldValue) \<in> set d"
    and "ByJSONName (Descriptor sch msg) fieldName = None"
    and "ByTextName (Descriptor sch msg) fieldName = None"
    and "\<forall>extraField \<in> set (ExtraFields (MarshalOptions options)).
           FieldName extraField \<noteq> fieldName"
  shows "findField (Descriptor sch msg) fieldName options = (None, False)
     \<and> (\<exists>msg' err. decodeMessage h sch options (GMap d) msg = (msg', Some err))
     \<and> (\<forall>pre post msg1. d = pre @ (fieldName, fieldValue) # post
            \<longrightarrow> decodeMessage_loop h sch options pre msg = (msg1, None)
            \<longrightarrow> decodeMessage h sch options (GMap d) msg
                  = (msg1, Some (''unexpected field '' @ fieldName)))"
proof (intro conjI allI impI)
  show ff: "findField (Descriptor sch msg) fieldName options = (None, False)"
    using assms(4-6) by (rule findField_not_found)
  from decodeMessage_loop_unknown_fails [OF assms(3) ff] decodeMessage_fields [OF assms(1,2)]
  show "\<exists>msg' err. decodeMessage h sch options (GMap d) msg = (msg', Some err)"
    by simp
  fix pre post msg1
  assume d: "d = pre @ (fieldName, fieldValue) # post"
    and pre: "decodeMessage_loop h sch options pre msg = (msg1, None)"
  have "findField (Descriptor sch msg1) fieldName options = (None, False)"
    using decodeMessage_loop_findField [OF pre] ff by simp
  then have "decodeMessage_loop h sch options ((fieldName, fieldValue) # post) msg1
               = (msg1, Some (''unexpected field '' @ fieldName))"
    by simp
  with decodeMessage_loop_append [OF pre, of "(fieldName, fieldValue) # post"] d
  have "decodeMessage_loop h sch options d msg = (msg1, Some (''unexpected field '' @ fieldName))"
    by simp
  with decodeMessage_fields [OF assms(1,2)]
  show "decodeMessage h sch options (GMap d) msg
          = (msg1, Some (''unexpected field '' @ fieldName))"
    by simp
qed

theorem unknown_field_fails_witness:
  "\<not> isWKT exHelpers (md_fullName (Descriptor exSchema (PMsg ''pkg.Msg'' [])))
   \<and> ByJSONName (Descriptor exSchema (PMsg ''pkg.Msg'' [])) ''bogus'' = None
   \<and> ByTextName (Descriptor exSchema (PMsg ''pkg.Msg'' [])) ''bogus'' = None
   \<and> \<not> (\<exists>extraField \<in> set (ExtraFields (MarshalOptions exOptions)).
            FieldName extraField = ''bogus'')
   \<and> findField (Descriptor exSchema (PMsg ''pkg.Msg'' [])) ''bogus'' exOptions = (None, False)
   \<and> decodeMessage exHelpers exSchema exOptions (GMap [(''bogus'', GInt64 1)])
        (PMsg ''pkg.Msg'' [])
      = (PMsg ''pkg.Msg'' [], Some ''unexpected field bogus'')
   \<and> decodeMessage exHelpers exSchema exOptions
        (GMap [(''name'', GString ''a''), (''bogus'', GInt64 1)]) (PMsg ''pkg.Msg'' [])
      = (PMsg ''pkg.Msg'' [(1, VString ''a'')], Some ''unexpected field bogus'')"
  using unknown_field_fails [of exHelpers exSchema "PMsg ''pkg.Msg'' []"
      "[(''name'', GString ''a''), (''bogus'', GInt64 1)]" "''bogus''" "GInt64 1" exOptions]
  by (simp add: ex_defs decodeFieldKind.simps)

text \<open>An entry whose name is an extra field is passed over wherever it stands.\<close>

lemma decodeMessage_loop_ignored:
  assumes "findField (Descriptor sch msg) k options = (None, True)"
  shows "decodeMessage_loop h sch options (pre @ (k, v) # post) msg
         = decodeMessage_loop h sch options (pre @ post) msg"
  using assms
proof (induction pre arbitrary: msg)
  case Nil
  then show ?case by simp
next
  case (Cons e pre)
  obtain k0 v0 where e: "e = (k0, v0)" by (cases e)
  obtain fd0 ok0 where ff: "findField (Descriptor sch msg) k0 options = (fd0, ok0)"
    by (cases "findField (Descriptor sch msg) k0 options")
  show ?case
  proof (cases ok0)
    case False
    with e ff show ?thesis by simp
  next
    case True
    show ?thesis
    proof (cases fd0)
      case None
      from Cons.IH [OF Cons.prems] e ff True None show ?thesis by simp
    next
      case (Some f)
      obtain m1 r1 where df: "decodeField h sch options v0 msg f = (m1, r1)"
        by (cases "decodeField h sch options v0 msg f")
      from df have "msgName m1 = msgName msg" by (rule decodeField_msgName)
      then have "findField (Descriptor sch m1) k options = (None, True)"
        using Cons.prems Descriptor_msgName [of m1 msg sch] by simp
      from Cons.IH [OF this] e ff True Some df show ?thesis
        by (cases r1) simp_all
    qed
  qed
qed

text \<open>
  C9, as stated (an entry whose key matches no field and is the name of an extra field
  is skipped, its value dropped and nothing written for it), fails when that key is
  also the target's full name and the only key of the mapping: the union test comes
  first, the entry's value is decoded as the message and its field \<open>name\<close> is
  written.
\<close>

theorem extra_field_counterexample:
  "findField (Descriptor exSchema (PMsg ''pkg.Msg'' [])) ''pkg.Msg''
     \<lparr>MarshalOptions = \<lparr>ExtraFields = [\<lparr>FieldName = ''pkg.Msg''\<rparr>]\<rparr>\<rparr> = (None, True)
   \<and> decodeMessage exHelpers exSchema
         \<lparr>MarshalOptions = \<lparr>ExtraFields = [\<lparr>FieldName = ''pkg.Msg''\<rparr>]\<rparr>\<rparr>
         (GMap [(''pkg.Msg'', GMap [(''name'', GString ''a'')])]) (PMsg ''pkg.Msg'' [])
       = (PMsg ''pkg.Msg'' [(1, VString ''a'')], None)"
  by (simp add: ex_defs decodeFieldKind.simps)

text \<open>
  C9, amended. For a target that is not a well-known type and an input mapping that is
  not a union wrapper: for an entry whose key matches no field by JSON name or text
  name and is the \<open>FieldName\<close> of an extra field of the options, \<open>findField\<close>
  returns no field and the flag \<open>True\<close>, and \<open>decodeMessage\<close> returns what the loop
  over the other entries returns, whatever the entry's value is: the entry raises no
  error and writes no field.
\<close>

theorem extra_field_skipped:
  assumes "\<not> isWKT h (md_fullName (Descriptor sch msg))"
    and "length (pre @ (fieldName, fieldValue) # post) \<noteq> 1
         \<or> map_of (pre @ (fieldName, fieldValue) # post) (md_fullName (Descriptor sch msg)) = None"
    and "ByJSONName (Descriptor sch msg) fieldName = None"
    and "ByTextName (Descriptor sch msg) fieldName = None"
    and "\<exists>extraField \<in> set (ExtraFields (MarshalOptions options)). FieldName extraField = fieldName"
  shows "findField (Descriptor sch msg) fieldName options = (None, True)
     \<and> decodeMessage h sch options (GMap (pre @ (fieldName, fieldValue) # post)) msg
         = decodeMessage_loop h sch options (pre @ post) msg"
proof -
  have ff: "findField (Descriptor sch msg) fieldName options = (None, True)"
    using assms(3-5) by (simp add: findField_def list_ex_iff)
  from decodeMessage_loop_ignored [OF ff] decodeMessage_fields [OF assms(1,2)] ff
  show ?thesis by simp
qed

theorem extra_field_skipped_witness:
  "\<not> isWKT exHelpers (md_fullName (Descriptor exSchema (PMsg ''pkg.Msg'' [])))
   \<and> ByJSONName (Descriptor exSchema (PMsg ''pkg.Msg'' [])) ''extra'' = None
   \<and> ByTextName (Descriptor exSchema (PMsg ''pkg.Msg'' [])) ''extra'' = None
   \<and> (\<exists>extraField \<in> set (ExtraFields (MarshalOptions exOptions)). FieldName extraField = ''extra'')
   \<and> decodeMessage exHelpers exSchema exOptions
        (GMap [(''name'', GString ''a''), (''extra'', GString ''b''), (''n'', GInt64 7)])
        (PMsg ''pkg.Msg'' [])
      = decodeMessage_loop exHelpers exSchema exOptions
          [(''name'', GString ''a''), (''n'', GInt64 7)] (PMsg ''pkg.Msg'' [])
   \<and> decodeMessage exHelpers exSchema exOptions
        (GMap [(''name'', GString ''a''), (''extra'', GString ''b''), (''n'', GInt64 7)])
        (PMsg ''pkg.Msg'' [])
      = (PMsg ''pkg.Msg'' [(1, VString ''a''), (5, VInt32 7)], None)"
  using extra_field_skipped [of exHelpers exSchema "PMsg ''pkg.Msg'' []"
      "[(''name'', GString ''a'')]" "''extra''" "GString ''b''" "[(''n'', GInt64 7)]" exOptions]
  by (simp add: ex_defs decodeFieldKind.simps)


end
